theory Spec2Isabelle
  imports Main "HOL-Library.AList" "HOL-Library.Multiset"
begin

section \<open>Data model\<close>

subsection \<open>Group elements and ElGamal cipher vectors\<close>

text \<open>
  The elliptic-curve library (\<^verbatim>\<open>abstract.Point\<close>, \<^verbatim>\<open>abstract.Secret\<close>) is an external
  collaborator. Points and scalars are both elements of a commutative ring \<open>'a\<close>: point
  addition is \<open>+\<close>, the group identity is \<open>0\<close>, and the scalar multiple \<open>s\<cdot>P\<close> is the ring
  product \<open>s * P\<close>. A cyclic group of prime order \<open>q\<close> with its scalars is the ring of
  integers modulo \<open>q\<close> seen this way; the base point \<open>B\<close> of the suite is passed explicitly.
  A \<^verbatim>\<open>CipherText\<close> is the pair of points \<open>(K, C)\<close>.
\<close>

record 'a CipherText =
  K :: 'a
  C :: 'a

type_synonym 'a CipherVector = "'a CipherText list"

text \<open>\<^verbatim>\<open>DeterministCipherText{c.C}\<close>: a struct holding one point.\<close>

datatype 'a DeterministCipherText = DeterministCipherText 'a

text \<open>
  A Go \<^verbatim>\<open>map[k]v\<close> is an association list: \<open>map_of\<close> reads a key, \<open>AList.update\<close> stores
  one, and \<^verbatim>\<open>for k := range m\<close> visits the entries in the order of the list (the order the
  runtime happened to pick).
\<close>

text \<open>
  Every way a call ends other than by returning \<^verbatim>\<open>nil\<close>: the errors the code returns
  (\<open>NoTarget\<close>, \<open>NoPublicKey\<close>, \<open>NoDataReference\<close>, \<open>CouldNotInstanciate\<close>, and
  \<open>ConversionError\<close> for whatever error a conversion of the service returns), the run-time
  panic of an index out of range (\<open>IndexOutOfRange\<close>), and \<open>MissingEphemeralKey\<close>, a key
  switch of a component for which the message carries no original key.
\<close>

datatype failure =
    NoTarget
  | NoPublicKey
  | NoDataReference
  | CouldNotInstanciate
  | ConversionError
  | IndexOutOfRange
  | MissingEphemeralKey

text \<open>
  Modelled from the spec: \<^verbatim>\<open>CipherVector.Add\<close>, of the package \<^verbatim>\<open>services/medco/structs\<close>
  (CipherText, CipherVector and their methods), is not among the sources. Section 3:
  "component-wise \<open>(K,C) + (K',C') = (K+K', C+C')\<close>". The receiver of the Go method is the
  destination, so \<^verbatim>\<open>cv.Add(cv1, cv2)\<close> leaves \<open>Add cv1 cv2\<close> in \<open>cv\<close>.
\<close>

definition Add :: "'a::comm_ring_1 CipherVector \<Rightarrow> 'a CipherVector \<Rightarrow> 'a CipherVector" where
  "Add cv1 cv2 = map (\<lambda>(c1, c2). \<lparr>K = K c1 + K c2, C = C c1 + C c2\<rparr>) (zip cv1 cv2)"

text \<open>
  Modelled from the spec: \<^verbatim>\<open>InitCipherVector\<close> is not among the sources. Section 4.4: the
  working copy has every K "cleared to the group identity"; a fresh vector of \<open>n\<close>
  components holds the identity in both fields.
\<close>

definition InitCipherVector :: "nat \<Rightarrow> 'a::comm_ring_1 CipherVector" where
  "InitCipherVector n = replicate n \<lparr>K = 0, C = 0\<rparr>"

text \<open>
  Modelled from the spec: \<^verbatim>\<open>CipherVector.SwitchToDeterministic\<close> is not among the sources.
  Section 4.1: "for each component \<open>(K,C)\<close>: replace \<open>(K,C)\<close> with
  \<open>(K, C - s_i\<cdot>K + \<pi>_i\<cdot>K)\<close>".
\<close>

definition SwitchToDeterministic :: "'a::comm_ring_1 \<Rightarrow> 'a \<Rightarrow> 'a CipherVector \<Rightarrow> 'a CipherVector" where
  "SwitchToDeterministic s ph cv = map (\<lambda>c. \<lparr>K = K c, C = C c - s * K c + ph * K c\<rparr>) cv"

text \<open>
  Modelled from the spec: \<^verbatim>\<open>CipherVector.SwitchForKey\<close> is not among the sources.
  Section 4.1: "replace \<open>(K,C)\<close> with \<open>(K + r_i\<cdot>B, C - s_i\<cdot>origK + r_i\<cdot>Y_new)\<close>", where
  \<open>origK\<close> is the ephemeral key recorded for that component. A component for which no
  original key was recorded has no result (\<open>None\<close>).
\<close>

fun SwitchForKey :: "'a::comm_ring_1 \<Rightarrow> 'a \<Rightarrow> 'a list \<Rightarrow> 'a \<Rightarrow> 'a \<Rightarrow> 'a CipherVector \<Rightarrow> 'a CipherVector option" where
  "SwitchForKey B s origKs Ynew r [] = Some []"
| "SwitchForKey B s [] Ynew r (c # cv) = None"
| "SwitchForKey B s (origK # origKs) Ynew r (c # cv) =
     (case SwitchForKey B s origKs Ynew r cv of
        None \<Rightarrow> None
      | Some cv' \<Rightarrow> Some (\<lparr>K = K c + r * B, C = C c - s * origK + r * Ynew\<rparr> # cv'))"

section \<open>Private Aggregation protocol\<close>

text \<open>
  The body of the inner loop of \<^verbatim>\<open>ascendingAggregationPhase\<close> for one \<^verbatim>\<open>group\<close> of a child's
  map. The lookup \<^verbatim>\<open>aggr, ok := (*localContribution)[group]\<close> reads the node's own map: when
  the group is there, \<^verbatim>\<open>localAggr\<close> and \<^verbatim>\<open>aggr\<close> are the same local vector and
  \<^verbatim>\<open>localAggr.Add(localAggr, aggr)\<close> adds it to itself in place; when it is not, \<^verbatim>\<open>aggr\<close> is
  the zero value of the failed lookup, the nil vector, and that is what is stored.
\<close>

definition foldGroup :: "('g \<times> 'a::comm_ring_1 CipherVector) list \<Rightarrow> 'g \<Rightarrow> ('g \<times> 'a CipherVector) list" where
  "foldGroup localContribution grp =
     (case map_of localContribution grp of
        Some aggr \<Rightarrow> AList.update grp (Add aggr aggr) localContribution
      | None \<Rightarrow> AList.update grp [] localContribution)"

text \<open>
  \<^verbatim>\<open>ascendingAggregationPhase\<close>: a nil \<^verbatim>\<open>localContribution\<close> becomes the empty map; a node
  that is not a leaf receives the slice of its children's messages and folds each of them,
  group by group; the result is what the node sends to its parent and returns.
\<close>

definition ascendingAggregationPhase ::
  "bool \<Rightarrow> ('g \<times> 'a::comm_ring_1 CipherVector) list list \<Rightarrow> ('g \<times> 'a CipherVector) list option
     \<Rightarrow> ('g \<times> 'a CipherVector) list" where
  "ascendingAggregationPhase isLeaf childData localContribution =
     (let emptyMap = [];
          localContribution = (case localContribution of None \<Rightarrow> emptyMap | Some m \<Rightarrow> m)
      in if \<not> isLeaf
         then fold (\<lambda>childrenContribution lc.
                      fold (\<lambda>grp lc'. foldGroup lc' grp) (map fst childrenContribution) lc)
                childData localContribution
         else localContribution)"

text \<open>
  One protocol run over the tree: every node holds its \<^verbatim>\<open>DataReference\<close> (possibly nil) and
  its children in the order their messages are folded; a node without children is a leaf.
  \<open>PrivateAggregate_Dispatch\<close> is the map the node sends upwards, and for the root the
  map it puts on the feedback channel.
\<close>

datatype ('g, 'a) aggregationTree =
  AggregationNode "('g \<times> 'a CipherVector) list option" "('g, 'a) aggregationTree list"

fun PrivateAggregate_Dispatch :: "('g, 'a::comm_ring_1) aggregationTree \<Rightarrow> ('g \<times> 'a CipherVector) list" where
  "PrivateAggregate_Dispatch (AggregationNode DataReference children) =
     ascendingAggregationPhase (children = []) (map PrivateAggregate_Dispatch children) DataReference"

text \<open>
  Two trees that differ only in the order in which every node folds its children: the
  children of the second are a permutation of trees related one by one to the children of
  the first.
\<close>

inductive reordered :: "('g, 'a) aggregationTree \<Rightarrow> ('g, 'a) aggregationTree \<Rightarrow> bool" where
  "list_all2 reordered cs ds \<Longrightarrow> mset ds = mset es \<Longrightarrow>
     reordered (AggregationNode ref cs) (AggregationNode ref es)"

text \<open>
  The per-group step read on maps, and the groups a node visits while it folds the messages
  of its children; both serve the proofs about the fold.
\<close>

definition stepGroup :: "'g \<Rightarrow> ('g \<rightharpoonup> 'a::comm_ring_1 CipherVector) \<Rightarrow> ('g \<rightharpoonup> 'a CipherVector)" where
  "stepGroup g m = m(g \<mapsto> (case m g of None \<Rightarrow> [] | Some v \<Rightarrow> Add v v))"

definition visitedGroups :: "('g, 'a::comm_ring_1) aggregationTree list \<Rightarrow> 'g list" where
  "visitedGroups cs = concat (map (\<lambda>c. map fst (PrivateAggregate_Dispatch c)) cs)"

section \<open>Ring protocols\<close>

subsection \<open>Protocol instances, the overlay, and what a call does\<close>

text \<open>
  The embedded \<^verbatim>\<open>*sda.TreeNodeInstance\<close> gives a node its private scalar (\<^verbatim>\<open>p.Private()\<close>)
  and tells whether it is the root. The two ring protocols of the sources declare the same
  fields \<^verbatim>\<open>nextNodeInCircuit\<close> and \<^verbatim>\<open>TargetOfSwitch\<close> (a pointer: \<open>None\<close> is nil);
  Deterministic Switching adds \<^verbatim>\<open>SurveyPHKey\<close>, Key Switching \<^verbatim>\<open>TargetPublicKey\<close>.
\<close>

record 'a TreeNodeInstance =
  Private :: 'a
  IsRoot :: bool

record ('n, 'u, 'a) SwitchingProtocol = "'a TreeNodeInstance" +
  nextNodeInCircuit :: "'n option"
  TargetOfSwitch :: "('u \<times> 'a CipherVector) list option"

record ('n, 'u, 'a) DeterministicSwitchingProtocol = "('n, 'u, 'a) SwitchingProtocol" +
  SurveyPHKey :: 'a

record ('n, 'u, 'a) KeySwitchingProtocol = "('n, 'u, 'a) SwitchingProtocol" +
  TargetPublicKey :: "'a option"

record ('u, 'a) KeySwitchedCipherMessage =
  Data :: "('u \<times> 'a CipherVector) list"
  NewKey :: 'a
  OriginalEphemeralKeys :: "('u \<times> 'a list) list"

text \<open>
  What a call that returned \<^verbatim>\<open>nil\<close> did: handed a message to the overlay for the next node
  (\<open>SentTo\<close>), logged the error of a send that failed (\<open>SendErrorLogged\<close>), announced to the
  children (\<open>SentToChildren\<close>), or put a result on the feedback channel (\<open>Feedback\<close>).
  A call ends as \<open>Inl\<close> of a \<open>failure\<close> (an error returned, or a panic) or as \<open>Inr\<close> of its
  effect with the \<^verbatim>\<open>nil\<close> error. The parameters are the types of the nodes, of the messages
  and of what the protocol's feedback channel carries.
\<close>

datatype ('n, 'm, 'f) effect =
    SentTo "'n option" 'm
  | SendErrorLogged
  | SentToChildren 'm
  | Feedback 'f

text \<open>
  The constructors \<^verbatim>\<open>NewDeterministSwitchingProtocol\<close> and \<^verbatim>\<open>NewKeySwitchingProtocol\<close> look
  the node up in \<^verbatim>\<open>Tree().List()\<close> and take \<^verbatim>\<open>nodeList[(i+1)%len(nodeList)]\<close> as the next
  node; \<^verbatim>\<open>nextNodeInCircuit\<close> stays nil when the node is not found.
\<close>

fun positionOf :: "'n \<Rightarrow> 'n list \<Rightarrow> nat option" where
  "positionOf self [] = None"
| "positionOf self (node # nodeList) =
     (if self = node then Some 0 else map_option Suc (positionOf self nodeList))"

definition circuitSuccessor :: "'n list \<Rightarrow> 'n \<Rightarrow> 'n option" where
  "circuitSuccessor nodeList self =
     (case positionOf self nodeList of
        None \<Rightarrow> None
      | Some i \<Rightarrow> Some (nodeList ! ((i + 1) mod length nodeList)))"

text \<open>
  \<^verbatim>\<open>sendToNext\<close>: \<open>SendTo next\<close> tells whether the overlay's \<^verbatim>\<open>p.SendTo\<close> returned a nil
  error. On an error the function logs it and returns; it has no result.
\<close>

definition sendToNext :: "('n option \<Rightarrow> bool) \<Rightarrow> 'n option \<Rightarrow> 'm \<Rightarrow> ('n, 'm, 'f) effect" where
  "sendToNext SendTo next msg = (if SendTo next then SentTo next msg else SendErrorLogged)"

text \<open>
  The assignment \<^verbatim>\<open>m[k][i] = v\<close> on a map of slices: \<^verbatim>\<open>m[k]\<close> of a key that is not in the map
  is the nil slice, of length 0, and indexing it panics; otherwise the slice stored under
  \<open>k\<close> is written in place when \<open>i\<close> is within its length.
\<close>

definition storeAt :: "('k \<times> 'v list) list \<Rightarrow> 'k \<Rightarrow> nat \<Rightarrow> 'v \<Rightarrow> failure + ('k \<times> 'v list) list" where
  "storeAt m k i v =
     (case map_of m k of
        None \<Rightarrow> Inl IndexOutOfRange
      | Some xs \<Rightarrow>
          if i < length xs then Inr (AList.update k (xs[i := v]) m) else Inl IndexOutOfRange)"

subsection \<open>Deterministic Switching\<close>

definition DeterministicSwitching_Start ::
  "('n option \<Rightarrow> bool) \<Rightarrow> ('n, 'u, 'a) DeterministicSwitchingProtocol
     \<Rightarrow> failure + ('n, ('u \<times> 'a CipherVector) list, ('u \<times> 'a DeterministCipherText list) list) effect" where
  "DeterministicSwitching_Start SendTo p =
     (case TargetOfSwitch p of
        None \<Rightarrow> Inl NoTarget
      | Some target \<Rightarrow> Inr (sendToNext SendTo (nextNodeInCircuit p) target))"

text \<open>
  The first loop of \<^verbatim>\<open>Dispatch\<close>: every vector of the received map is switched in place with
  the node's private scalar and its survey scalar. A Go map holds a key once, so visiting
  the keys and reading \<^verbatim>\<open>Data[k]\<close> visits the entries.
\<close>

definition switchAllToDeterministic ::
  "('n, 'u, 'a::comm_ring_1) DeterministicSwitchingProtocol \<Rightarrow> ('u \<times> 'a CipherVector) list
     \<Rightarrow> ('u \<times> 'a CipherVector) list" where
  "switchAllToDeterministic p data =
     map (\<lambda>(k, elem). (k, SwitchToDeterministic (Private p) (SurveyPHKey p) elem)) data"

text \<open>
  The root's loops over the switched map: \<^verbatim>\<open>deterministicSwitchedData[k][i] =
  DeterministCipherText{c.C}\<close> for the component \<open>i\<close> of row \<open>k\<close>, into a map made empty.
\<close>

fun extractRow ::
  "'u \<Rightarrow> nat \<Rightarrow> 'a CipherVector \<Rightarrow> ('u \<times> 'a DeterministCipherText list) list
     \<Rightarrow> failure + ('u \<times> 'a DeterministCipherText list) list" where
  "extractRow k i [] deterministicSwitchedData = Inr deterministicSwitchedData"
| "extractRow k i (c # cs) deterministicSwitchedData =
     (case storeAt deterministicSwitchedData k i (DeterministCipherText (C c)) of
        Inl e \<Rightarrow> Inl e
      | Inr d \<Rightarrow> extractRow k (Suc i) cs d)"

fun extractRows ::
  "('u \<times> 'a CipherVector) list \<Rightarrow> ('u \<times> 'a DeterministCipherText list) list
     \<Rightarrow> failure + ('u \<times> 'a DeterministCipherText list) list" where
  "extractRows [] deterministicSwitchedData = Inr deterministicSwitchedData"
| "extractRows ((k, cv) # rest) deterministicSwitchedData =
     (case extractRow k 0 cv deterministicSwitchedData of
        Inl e \<Rightarrow> Inl e
      | Inr d \<Rightarrow> extractRows rest d)"

definition DeterministicSwitching_Dispatch ::
  "('n option \<Rightarrow> bool) \<Rightarrow> ('n, 'u, 'a::comm_ring_1) DeterministicSwitchingProtocol
     \<Rightarrow> ('u \<times> 'a CipherVector) list
     \<Rightarrow> failure + ('n, ('u \<times> 'a CipherVector) list, ('u \<times> 'a DeterministCipherText list) list) effect" where
  "DeterministicSwitching_Dispatch SendTo p deterministicSwitchingTarget =
     (let switched = switchAllToDeterministic p deterministicSwitchingTarget
      in if IsRoot p
         then (case extractRows switched [] of
                 Inl e \<Rightarrow> Inl e
               | Inr deterministicSwitchedData \<Rightarrow> Inr (Feedback deterministicSwitchedData))
         else Inr (sendToNext SendTo (nextNodeInCircuit p) switched))"

subsection \<open>Key Switching\<close>

text \<open>
  The loops of \<^verbatim>\<open>Start\<close>. For the component \<open>i\<close> of row \<open>k\<close>:
  \<^verbatim>\<open>initialCipherVector[i].C = c.C\<close>, then \<^verbatim>\<open>p.originalEphemKeys[k][i] = c.K\<close>.
\<close>

fun copyRow ::
  "'u \<Rightarrow> nat \<Rightarrow> 'a CipherVector \<Rightarrow> 'a CipherVector \<times> ('u \<times> 'a list) list
     \<Rightarrow> failure + ('a CipherVector \<times> ('u \<times> 'a list) list)" where
  "copyRow k i [] st = Inr st"
| "copyRow k i (c # cs) (initialCipherVector, originalEphemKeys) =
     (case storeAt originalEphemKeys k i (K c) of
        Inl e \<Rightarrow> Inl e
      | Inr keys \<Rightarrow>
          copyRow k (Suc i) cs
            (initialCipherVector[i := (initialCipherVector ! i)\<lparr>C := C c\<rparr>], keys))"

fun copyRows ::
  "('u \<times> 'a::comm_ring_1 CipherVector) list
     \<Rightarrow> ('u \<times> 'a CipherVector) list \<times> ('u \<times> 'a list) list
     \<Rightarrow> failure + (('u \<times> 'a CipherVector) list \<times> ('u \<times> 'a list) list)" where
  "copyRows [] st = Inr st"
| "copyRows ((k, cv) # rest) (initialMap, originalEphemKeys) =
     (case copyRow k 0 cv (InitCipherVector (length cv), originalEphemKeys) of
        Inl e \<Rightarrow> Inl e
      | Inr (initialCipherVector, keys) \<Rightarrow>
          copyRows rest (AList.update k initialCipherVector initialMap, keys))"

definition KeySwitching_Start ::
  "('n option \<Rightarrow> bool) \<Rightarrow> ('n, 'u, 'a::comm_ring_1) KeySwitchingProtocol
     \<Rightarrow> failure + ('n, ('u, 'a) KeySwitchedCipherMessage, ('u \<times> 'a CipherVector) list) effect" where
  "KeySwitching_Start SendTo p =
     (case TargetOfSwitch p of
        None \<Rightarrow> Inl NoTarget
      | Some target \<Rightarrow>
          (case TargetPublicKey p of
             None \<Rightarrow> Inl NoPublicKey
           | Some publicKey \<Rightarrow>
               (case copyRows target ([], []) of
                  Inl e \<Rightarrow> Inl e
                | Inr (initialMap, originalEphemKeys) \<Rightarrow>
                    Inr (sendToNext SendTo (nextNodeInCircuit p)
                           \<lparr>Data = initialMap, NewKey = publicKey,
                            OriginalEphemeralKeys = originalEphemKeys\<rparr>))))"

text \<open>
  Not a translation of any code: the initial message as section 4.4 of the specification
  words it ("each component's K field is zeroed and C is preserved", with the original
  ephemeral keys alongside), written down only to be compared with what
  \<open>KeySwitching_Start\<close>, the \<^verbatim>\<open>Start\<close> of the sources above, does. No run of the protocol
  below starts from it.
\<close>

definition specifiedInitialMessage ::
  "('u \<times> 'a::comm_ring_1 CipherVector) list \<Rightarrow> 'a \<Rightarrow> ('u, 'a) KeySwitchedCipherMessage" where
  "specifiedInitialMessage target publicKey =
     \<lparr>Data = map (\<lambda>(k, cv). (k, map (\<lambda>c. \<lparr>K = 0, C = C c\<rparr>) cv)) target,
      NewKey = publicKey,
      OriginalEphemeralKeys = map (\<lambda>(k, cv). (k, map K cv)) target\<rparr>"

text \<open>
  The loop of \<^verbatim>\<open>Dispatch\<close>: every vector is switched in place with the node's private scalar,
  the original ephemeral keys the message carries for that row
  (\<^verbatim>\<open>OriginalEphemeralKeys[k]\<close>, the nil slice when the row has none), the new key and the
  randomness the node picked for this call.
\<close>

fun switchAllForKey ::
  "'a::comm_ring_1 \<Rightarrow> 'a \<Rightarrow> 'a \<Rightarrow> ('u, 'a) KeySwitchedCipherMessage \<Rightarrow> ('u \<times> 'a CipherVector) list
     \<Rightarrow> failure + ('u \<times> 'a CipherVector) list" where
  "switchAllForKey B private randomnessContrib msg [] = Inr []"
| "switchAllForKey B private randomnessContrib msg ((k, cv) # rest) =
     (case SwitchForKey B private
             (case map_of (OriginalEphemeralKeys msg) k of None \<Rightarrow> [] | Some ks \<Rightarrow> ks)
             (NewKey msg) randomnessContrib cv of
        None \<Rightarrow> Inl MissingEphemeralKey
      | Some cv' \<Rightarrow>
          (case switchAllForKey B private randomnessContrib msg rest of
             Inl e \<Rightarrow> Inl e
           | Inr rest' \<Rightarrow> Inr ((k, cv') # rest')))"

definition KeySwitching_Dispatch ::
  "'a::comm_ring_1 \<Rightarrow> ('n option \<Rightarrow> bool) \<Rightarrow> ('n, 'u, 'a) KeySwitchingProtocol \<Rightarrow> 'a
     \<Rightarrow> ('u, 'a) KeySwitchedCipherMessage
     \<Rightarrow> failure + ('n, ('u, 'a) KeySwitchedCipherMessage, ('u \<times> 'a CipherVector) list) effect" where
  "KeySwitching_Dispatch B SendTo p randomnessContrib keySwitchingTarget =
     (case switchAllForKey B (Private p) randomnessContrib keySwitchingTarget
             (Data keySwitchingTarget) of
        Inl e \<Rightarrow> Inl e
      | Inr switched \<Rightarrow>
          if IsRoot p then Inr (Feedback switched)
          else Inr (sendToNext SendTo (nextNodeInCircuit p) (keySwitchingTarget\<lparr>Data := switched\<rparr>)))"

subsection \<open>Runs round the ring\<close>

text \<open>
  One trip of a message round the ring: the instances are listed, each with the randomness
  it picks, in the order the circuit visits them, and the overlay hands a message that was
  sent to the following instance. The trip is \<open>Completed\<close> when an instance puts the result
  on its feedback channel, \<open>Crashed\<close> when a call ends with a failure (a panic, or the
  error \<^verbatim>\<open>Start\<close> returns), and \<open>Stalled\<close> when a send failed or no instance is left to
  receive.
\<close>

datatype 'f trip = Completed 'f | Crashed failure | Stalled

fun KeySwitching_circuit ::
  "'a::comm_ring_1 \<Rightarrow> ('n option \<Rightarrow> bool) \<Rightarrow> (('n, 'u, 'a) KeySwitchingProtocol \<times> 'a) list
     \<Rightarrow> ('u, 'a) KeySwitchedCipherMessage \<Rightarrow> ('u \<times> 'a CipherVector) list trip" where
  "KeySwitching_circuit B SendTo [] msg = Stalled"
| "KeySwitching_circuit B SendTo ((p, r) # rest) msg =
     (case KeySwitching_Dispatch B SendTo p r msg of
        Inl e \<Rightarrow> Crashed e
      | Inr (Feedback result) \<Rightarrow> Completed result
      | Inr (SentTo next msg') \<Rightarrow> KeySwitching_circuit B SendTo rest msg'
      | Inr _ \<Rightarrow> Stalled)"

text \<open>
  One run of Key Switching as the service starts it: \<^verbatim>\<open>Start\<close> at the initiator, which is the
  root; the message it sends goes through \<open>others\<close>, the nodes between the initiator and
  itself on the circuit, and comes back to the initiator's \<^verbatim>\<open>Dispatch\<close>.
\<close>

definition KeySwitching_run ::
  "'a::comm_ring_1 \<Rightarrow> ('n option \<Rightarrow> bool) \<Rightarrow> (('n, 'u, 'a) KeySwitchingProtocol \<times> 'a) list
     \<Rightarrow> ('n, 'u, 'a) KeySwitchingProtocol \<times> 'a \<Rightarrow> ('u \<times> 'a CipherVector) list trip" where
  "KeySwitching_run B SendTo others initiator =
     (case KeySwitching_Start SendTo (fst initiator) of
        Inl e \<Rightarrow> Crashed e
      | Inr (SentTo next msg) \<Rightarrow> KeySwitching_circuit B SendTo (others @ [initiator]) msg
      | Inr _ \<Rightarrow> Stalled)"

text \<open>The same for Deterministic Switching, whose \<^verbatim>\<open>Dispatch\<close> picks no randomness.\<close>

fun DeterministicSwitching_circuit ::
  "('n option \<Rightarrow> bool) \<Rightarrow> ('n, 'u, 'a::comm_ring_1) DeterministicSwitchingProtocol list
     \<Rightarrow> ('u \<times> 'a CipherVector) list \<Rightarrow> ('u \<times> 'a DeterministCipherText list) list trip" where
  "DeterministicSwitching_circuit SendTo [] msg = Stalled"
| "DeterministicSwitching_circuit SendTo (p # rest) msg =
     (case DeterministicSwitching_Dispatch SendTo p msg of
        Inl e \<Rightarrow> Crashed e
      | Inr (Feedback result) \<Rightarrow> Completed result
      | Inr (SentTo next msg') \<Rightarrow> DeterministicSwitching_circuit SendTo rest msg'
      | Inr _ \<Rightarrow> Stalled)"

definition DeterministicSwitching_run ::
  "('n option \<Rightarrow> bool) \<Rightarrow> ('n, 'u, 'a::comm_ring_1) DeterministicSwitchingProtocol list
     \<Rightarrow> ('n, 'u, 'a) DeterministicSwitchingProtocol
     \<Rightarrow> ('u \<times> 'a DeterministCipherText list) list trip" where
  "DeterministicSwitching_run SendTo others initiator =
     (case DeterministicSwitching_Start SendTo initiator of
        Inl e \<Rightarrow> Crashed e
      | Inr (SentTo next msg) \<Rightarrow> DeterministicSwitching_circuit SendTo (others @ [initiator]) msg
      | Inr _ \<Rightarrow> Stalled)"

subsection \<open>Private Aggregation: Start\<close>

text \<open>
  \<^verbatim>\<open>PrivateAggregateProtocol.Start\<close>: an error when \<^verbatim>\<open>DataReference\<close> is nil, otherwise the
  announcement \<^verbatim>\<open>DataReferenceMessage{}\<close> goes to the children (the result of
  \<^verbatim>\<open>SendToChildren\<close> is dropped).
\<close>

definition PrivateAggregate_Start ::
  "('g \<times> 'a CipherVector) list option
     \<Rightarrow> failure + (unit, unit, ('g \<times> 'a CipherVector) list) effect" where
  "PrivateAggregate_Start DataReference =
     (case DataReference of
        None \<Rightarrow> Inl NoDataReference
      | Some _ \<Rightarrow> Inr (SentToChildren ()))"

section \<open>The service\<close>

text \<open>
  \<^verbatim>\<open>MedcoService\<close>: the fields a survey sets, and \<open>entity\<close>, the server's own identity
  (\<^verbatim>\<open>mcs.Entity()\<close>, from the embedded service processor). The store and the tree are values
  of the packages \<^verbatim>\<open>store\<close> and \<^verbatim>\<open>sda\<close>, which are not among the sources: their types are
  the parameters \<open>'st\<close> and \<open>'t\<close>.
\<close>

record ('e, 't, 'st, 'a) MedcoService =
  entity :: 'e
  entityList :: "'e list"
  tree :: 't
  store :: 'st
  surveyPHKey :: 'a

datatype ServiceResponse = ServiceResponse int

datatype 'res SurveyResultResponse = SurveyResultResponse 'res

text \<open>
  \<^verbatim>\<open>HandleSurveyCreationQuery\<close>. The request \<open>recq\<close> is the list of its \<^verbatim>\<open>EntityList\<close>;
  \<open>GenerateBinaryTree\<close> and \<open>NewSurvey\<close> stand for
  \<^verbatim>\<open>EntityList.GenerateBinaryTree\<close> and \<^verbatim>\<open>store.NewSurvey()\<close>, \<open>picked\<close> for the scalar
  \<^verbatim>\<open>Secret().Pick(random.Stream)\<close> returns. The four assignments come first; then
  \<^verbatim>\<open>mcs.entityList.List[0]\<close> is read, which panics on an empty list; the root sends the
  request to every other entity (the results of \<^verbatim>\<open>SendRaw\<close> are dropped). The result is the
  reply or the panic, the service afterwards, and the entities the request was sent to.
\<close>

definition HandleSurveyCreationQuery ::
  "('e list \<Rightarrow> 't) \<Rightarrow> 'st \<Rightarrow> 'a \<Rightarrow> ('e, 't, 'st, 'a) MedcoService \<Rightarrow> 'e list
     \<Rightarrow> (failure + ServiceResponse \<times> failure option) \<times> ('e, 't, 'st, 'a) MedcoService \<times> 'e list" where
  "HandleSurveyCreationQuery GenerateBinaryTree NewSurvey picked mcs recq =
     (let mcs = mcs\<lparr>entityList := recq\<rparr>;
          mcs = mcs\<lparr>tree := GenerateBinaryTree (entityList mcs)\<rparr>;
          mcs = mcs\<lparr>store := NewSurvey\<rparr>;
          mcs = mcs\<lparr>surveyPHKey := picked\<rparr>
      in case entityList mcs of
           [] \<Rightarrow> (Inl IndexOutOfRange, mcs, [])
         | root # _ \<Rightarrow>
             (Inr (ServiceResponse 1, None), mcs,
              if entity mcs = root then filter (\<lambda>e. e \<noteq> entity mcs) (entityList mcs) else []))"

text \<open>
  The collaborators of the pipeline that are not among the sources: the operations of the
  survey store (each returns the store it leaves), the two conversions between
  deterministic cipher vectors and grouping attributes, whether a protocol instance can
  be created (\<open>instanciates\<close>: the constructor returned no error), and for each protocol
  what the coordinator receives on the feedback channel of the instance it started, \<open>None\<close>
  when nothing ever arrives there.
\<close>

datatype protocolName = DeterministicSwitching | ProbabilisticSwitching | PrivateAggregate | KeySwitching

record ('u, 'g, 'a, 'st, 't, 'res) collaborators =
  PollProbabilisticGroupingAttributes :: "'st \<Rightarrow> ('u \<times> 'a CipherVector) list \<times> 'st"
  PushDeterministicGroupingAttributes :: "('u \<times> 'g) list \<Rightarrow> 'st \<Rightarrow> 'st"
  PollLocallyAggregatedResponses :: "'st \<Rightarrow> ('g \<times> 'a CipherVector) list \<times> 'st"
  PushCothorityAggregatedGroups :: "('g \<times> 'a CipherVector) list \<Rightarrow> 'st \<Rightarrow> 'st"
  PollCothorityAggregatedGroups :: "'st \<Rightarrow> (('u \<times> 'g) list \<times> ('u \<times> 'a CipherVector) list) \<times> 'st"
  PushQuerierKeyEncryptedData ::
    "('u \<times> 'a CipherVector) list \<Rightarrow> ('u \<times> 'a CipherVector) list \<Rightarrow> 'st \<Rightarrow> 'st"
  PollDeliverableResults :: "'st \<Rightarrow> 'res \<times> 'st"
  DeterministicCipherVectorToGroupingAttributes :: "'a DeterministCipherText list \<Rightarrow> failure + 'g"
  GroupingAttributesToDeterministicCipherVector :: "'g \<Rightarrow> 'a DeterministCipherText list"
  instanciates :: "protocolName \<Rightarrow> bool"
  deterministicSwitchingFeedback ::
    "'t \<Rightarrow> 'a \<Rightarrow> ('u \<times> 'a CipherVector) list \<Rightarrow> ('u \<times> 'a DeterministCipherText list) list option"
  privateAggregateFeedback ::
    "'t \<Rightarrow> ('g \<times> 'a CipherVector) list \<Rightarrow> ('g \<times> 'a CipherVector) list option"
  keySwitchingFeedback ::
    "'t \<Rightarrow> ('u \<times> 'a CipherVector) list \<Rightarrow> 'a \<Rightarrow> ('u \<times> 'a CipherVector) list option"
  probabilisticSwitchingFeedback ::
    "'t \<Rightarrow> ('u \<times> 'a DeterministCipherText list) list \<Rightarrow> 'a \<Rightarrow> ('u \<times> 'a CipherVector) list option"

text \<open>
  The loop of \<^verbatim>\<open>flushCollectedData\<close> that converts every switched row; it returns the first
  error of the conversion.
\<close>

fun convertRows ::
  "('v \<Rightarrow> failure + 'g) \<Rightarrow> ('u \<times> 'v) list \<Rightarrow> ('u \<times> 'g) list \<Rightarrow> failure + ('u \<times> 'g) list" where
  "convertRows conv [] deterministicGroupAttributes = Inr deterministicGroupAttributes"
| "convertRows conv ((k, v) # rest) deterministicGroupAttributes =
     (case conv v of
        Inl err \<Rightarrow> Inl err
      | Inr g \<Rightarrow> convertRows conv rest (AList.update k g deterministicGroupAttributes))"

text \<open>
  The three steps of the pipeline. Each returns \<open>None\<close> when it blocks for ever on a
  feedback channel, and otherwise the error it returns (\<open>None\<close> for \<^verbatim>\<open>nil\<close>) with the
  service as it leaves it.
\<close>

definition flushCollectedData ::
  "('u, 'g, 'a, 'st, 't, 'res) collaborators \<Rightarrow> ('e, 't, 'st, 'a) MedcoService
     \<Rightarrow> (failure option \<times> ('e, 't, 'st, 'a) MedcoService) option" where
  "flushCollectedData env mcs =
     (let (probabilisticGroupingAttributes, st) = PollProbabilisticGroupingAttributes env (store mcs);
          mcs = mcs\<lparr>store := st\<rparr>
      in if \<not> instanciates env DeterministicSwitching then Some (Some CouldNotInstanciate, mcs)
         else (case deterministicSwitchingFeedback env (tree mcs) (surveyPHKey mcs)
                      probabilisticGroupingAttributes of
                 None \<Rightarrow> None
               | Some deterministicSwitchedResult \<Rightarrow>
                   (case convertRows (DeterministicCipherVectorToGroupingAttributes env)
                           deterministicSwitchedResult [] of
                      Inl err \<Rightarrow> Some (Some err, mcs)
                    | Inr deterministicGroupAttributes \<Rightarrow>
                        Some (None, mcs\<lparr>store :=
                          PushDeterministicGroupingAttributes env deterministicGroupAttributes
                            (store mcs)\<rparr>))))"

definition flushGroupedData ::
  "('u, 'g, 'a, 'st, 't, 'res) collaborators \<Rightarrow> ('e, 't, 'st, 'a) MedcoService
     \<Rightarrow> (failure option \<times> ('e, 't, 'st, 'a) MedcoService) option" where
  "flushGroupedData env mcs =
     (let (groupedData, st) = PollLocallyAggregatedResponses env (store mcs);
          mcs = mcs\<lparr>store := st\<rparr>
      in if \<not> instanciates env PrivateAggregate then Some (Some CouldNotInstanciate, mcs)
         else (case privateAggregateFeedback env (tree mcs) groupedData of
                 None \<Rightarrow> None
               | Some cothorityAggregatedData \<Rightarrow>
                   Some (None, mcs\<lparr>store :=
                     PushCothorityAggregatedGroups env cothorityAggregatedData (store mcs)\<rparr>)))"

definition flushAggregatedData ::
  "('u, 'g, 'a, 'st, 't, 'res) collaborators \<Rightarrow> ('e, 't, 'st, 'a) MedcoService \<Rightarrow> 'a
     \<Rightarrow> (failure option \<times> ('e, 't, 'st, 'a) MedcoService) option" where
  "flushAggregatedData env mcs querierKey =
     (let ((aggregatedGroups, aggregatedAttributes), st) =
            PollCothorityAggregatedGroups env (store mcs);
          mcs = mcs\<lparr>store := st\<rparr>
      in if \<not> instanciates env KeySwitching then Some (Some CouldNotInstanciate, mcs)
         else (case keySwitchingFeedback env (tree mcs) aggregatedAttributes querierKey of
                 None \<Rightarrow> None
               | Some keySwitchedAggregatedAttributes \<Rightarrow>
                   if \<not> instanciates env ProbabilisticSwitching
                   then Some (Some CouldNotInstanciate, mcs)
                   else (let targetOfSwitch =
                               map (\<lambda>(k, g). (k, GroupingAttributesToDeterministicCipherVector env g))
                                 aggregatedGroups
                         in case probabilisticSwitchingFeedback env (tree mcs) targetOfSwitch
                                   querierKey of
                              None \<Rightarrow> None
                            | Some keySwitchedAggregatedGroups \<Rightarrow>
                                Some (None, mcs\<lparr>store :=
                                  PushQuerierKeyEncryptedData env keySwitchedAggregatedGroups
                                    keySwitchedAggregatedAttributes (store mcs)\<rparr>))))"

text \<open>
  \<^verbatim>\<open>HandleSurveyResultsQuery\<close> calls the three steps as statements, so what they return is
  dropped, and returns \<^verbatim>\<open>&SurveyResultResponse{mcs.store.PollDeliverableResults()}, nil\<close>.
  The result is \<open>None\<close> when a step blocks for ever, and otherwise the reply, the error,
  and the service afterwards.
\<close>

definition HandleSurveyResultsQuery ::
  "('u, 'g, 'a, 'st, 't, 'res) collaborators \<Rightarrow> ('e, 't, 'st, 'a) MedcoService \<Rightarrow> 'a
     \<Rightarrow> (('res SurveyResultResponse \<times> failure option) \<times> ('e, 't, 'st, 'a) MedcoService) option" where
  "HandleSurveyResultsQuery env mcs clientPublic =
     (case flushCollectedData env mcs of
        None \<Rightarrow> None
      | Some (_, mcs) \<Rightarrow>
          (case flushGroupedData env mcs of
             None \<Rightarrow> None
           | Some (_, mcs) \<Rightarrow>
               (case flushAggregatedData env mcs clientPublic of
                  None \<Rightarrow> None
                | Some (_, mcs) \<Rightarrow>
                    (let (results, st) = PollDeliverableResults env (store mcs)
                     in Some ((SurveyResultResponse results, None), mcs\<lparr>store := st\<rparr>)))))"

text \<open>
  Collaborators for a worked example: a store that is a list of deliverable results, every
  protocol instance can be created except that of Deterministic Switching, and every
  feedback channel delivers.
\<close>

definition exampleCollaborators :: "(nat, nat, int, nat list, unit, nat list) collaborators" where
  "exampleCollaborators =
     \<lparr>PollProbabilisticGroupingAttributes = (\<lambda>st. ([], st)),
      PushDeterministicGroupingAttributes = (\<lambda>m st. st),
      PollLocallyAggregatedResponses = (\<lambda>st. ([], st)),
      PushCothorityAggregatedGroups = (\<lambda>m st. st),
      PollCothorityAggregatedGroups = (\<lambda>st. (([], []), st)),
      PushQuerierKeyEncryptedData = (\<lambda>g a st. st),
      PollDeliverableResults = (\<lambda>st. (st, [])),
      DeterministicCipherVectorToGroupingAttributes = (\<lambda>v. Inr 0),
      GroupingAttributesToDeterministicCipherVector = (\<lambda>g. []),
      instanciates = (\<lambda>name. name \<noteq> DeterministicSwitching),
      deterministicSwitchingFeedback = (\<lambda>t ph rows. Some []),
      privateAggregateFeedback = (\<lambda>t m. Some m),
      keySwitchingFeedback = (\<lambda>t m y. Some m),
      probabilisticSwitchingFeedback = (\<lambda>t m y. Some [])\<rparr>"

section \<open>Private Aggregation: folding a child's contribution\<close>

text \<open>
  C1. The claim: at a node that is not a leaf, folding a child's entry \<open>(group, vector)\<close>
  adds the child's vector to the local one when the group exists locally, and inserts the
  child's vector otherwise. The code never reads the child's vector. At a node with no
  local entry for group \<open>1\<close>, the child's vector \<open>[(3, 4)]\<close> is dropped and the nil vector
  stored; at a node holding \<open>[(1, 2)]\<close> for the group, the result is the local vector
  doubled, \<open>[(2, 4)]\<close>, not the sum \<open>[(4, 6)]\<close>.
\<close>

theorem ascendingAggregationPhase_drops_child_vector:
  "ascendingAggregationPhase False [[(1::nat, [\<lparr>K = 3::int, C = 4\<rparr>])]] None = [(1, [])]
   \<and> ascendingAggregationPhase False [[(1::nat, [\<lparr>K = 3::int, C = 4\<rparr>])]]
        (Some [(1, [\<lparr>K = 1, C = 2\<rparr>])]) = [(1, [\<lparr>K = 2, C = 4\<rparr>])]"
  by (simp add: ascendingAggregationPhase_def foldGroup_def Add_def)

section \<open>Private Aggregation: the order of the children\<close>

lemma map_of_foldGroup: "map_of (foldGroup l g) = stepGroup g (map_of l)"
  by (simp add: foldGroup_def stepGroup_def update_conv' split: option.splits)

lemma map_of_fold_foldGroup:
  "map_of (fold (\<lambda>g l. foldGroup l g) ks l) = fold stepGroup ks (map_of l)"
  by (induction ks arbitrary: l) (simp_all add: map_of_foldGroup)

lemma stepGroup_commute: "stepGroup g \<circ> stepGroup h = stepGroup h \<circ> stepGroup g"
  by (rule ext) (auto simp: stepGroup_def fun_eq_iff split: option.splits)

lemma fold_stepGroup_mset: "mset ks = mset ks' \<Longrightarrow> fold stepGroup ks = fold stepGroup ks'"
  by (rule fold_multiset_equiv) (simp_all add: stepGroup_commute)

lemma keys_foldGroup:
  "map fst (foldGroup l g) = (if g \<in> set (map fst l) then map fst l else map fst l @ [g])"
  by (simp add: foldGroup_def update_keys split: option.splits)

text \<open>The groups of the folded map: those of the local map, then each new group once.\<close>

lemma keys_fold_foldGroup:
  "mset (map fst (fold (\<lambda>g l. foldGroup l g) ks l)) =
     mset (map fst l) + mset_set (set ks - set (map fst l))"
proof (induction ks arbitrary: l)
  case Nil
  then show ?case by simp
next
  case (Cons g ks)
  have step: "mset (map fst (fold (\<lambda>g l. foldGroup l g) (g # ks) l)) =
      mset (map fst (foldGroup l g)) + mset_set (set ks - set (map fst (foldGroup l g)))"
    using Cons.IH [of "foldGroup l g"] by simp
  show ?case
  proof (cases "g \<in> set (map fst l)")
    case True
    then have "set (g # ks) - set (map fst l) = set ks - set (map fst l)" by auto
    moreover from True have "map fst (foldGroup l g) = map fst l"
      by (simp add: keys_foldGroup)
    ultimately show ?thesis using step by simp
  next
    case False
    then have keys: "map fst (foldGroup l g) = map fst l @ [g]"
      by (simp add: keys_foldGroup)
    have "set (g # ks) - set (map fst l) = insert g (set ks - set (map fst l @ [g]))"
      using False by auto
    moreover have "g \<notin> set ks - set (map fst l @ [g])" by simp
    moreover have "finite (set ks - set (map fst l @ [g]))" by simp
    ultimately have "mset_set (set (g # ks) - set (map fst l)) =
        add_mset g (mset_set (set ks - set (map fst l @ [g])))"
      by (metis mset_set.insert)
    then show ?thesis using step keys by simp
  qed
qed

lemma fold_children_concat:
  "fold (\<lambda>child lc. fold (\<lambda>g lc'. foldGroup lc' g) (map fst child) lc) msgs l =
     fold (\<lambda>g l. foldGroup l g) (concat (map (map fst) msgs)) l"
  by (induction msgs arbitrary: l) simp_all

text \<open>The fold reads only the groups of a child's message, whatever vectors it carries.\<close>

lemma ascendingAggregationPhase_ignores_vectors:
  assumes "map (map fst) childData = map (map fst) childData'"
  shows "ascendingAggregationPhase isLeaf childData localContribution =
     ascendingAggregationPhase isLeaf childData' localContribution"
proof -
  have "concat (map (map fst) childData) = concat (map (map fst) childData')"
    by (simp only: assms)
  then show ?thesis
    by (simp only: ascendingAggregationPhase_def fold_children_concat)
qed

lemma Dispatch_as_fold:
  "PrivateAggregate_Dispatch (AggregationNode ref cs) =
     fold (\<lambda>g l. foldGroup l g) (visitedGroups cs) (case ref of None \<Rightarrow> [] | Some m \<Rightarrow> m)"
  by (cases "cs = []")
     (simp_all add: ascendingAggregationPhase_def visitedGroups_def fold_children_concat comp_def)

lemma mset_visitedGroups:
  "mset (visitedGroups cs) = (\<Sum>c\<leftarrow>cs. mset (map fst (PrivateAggregate_Dispatch c)))"
  by (simp add: visitedGroups_def mset_concat comp_def del: mset_map)

lemma sum_list_related:
  "list_all2 (\<lambda>a b. f a = f b) xs ys \<Longrightarrow> (\<Sum>x\<leftarrow>xs. f x) = (\<Sum>y\<leftarrow>ys. (f y :: 'b multiset))"
  by (induction rule: list_all2_induct) simp_all

lemma sum_list_permuted:
  "mset ys = mset zs \<Longrightarrow> (\<Sum>y\<leftarrow>ys. f y) = (\<Sum>z\<leftarrow>zs. (f z :: 'b multiset))"
  by (metis mset_map sum_mset_sum_list)

lemma reordered_same_map_and_keys:
  "reordered t t' \<Longrightarrow>
     map_of (PrivateAggregate_Dispatch t) = map_of (PrivateAggregate_Dispatch t')
     \<and> mset (map fst (PrivateAggregate_Dispatch t)) = mset (map fst (PrivateAggregate_Dispatch t'))"
proof (induction rule: reordered.induct)
  case (1 cs ds es ref)
  let ?h = "\<lambda>c. mset (map fst (PrivateAggregate_Dispatch c))"
  from "1.IH" have "list_all2 (\<lambda>a b. ?h a = ?h b) cs ds"
    by (rule list_all2_mono) simp
  then have "(\<Sum>c\<leftarrow>cs. ?h c) = (\<Sum>d\<leftarrow>ds. ?h d)"
    by (rule sum_list_related)
  also have "\<dots> = (\<Sum>e\<leftarrow>es. ?h e)"
    using "1.hyps" by (rule sum_list_permuted)
  finally have ks: "mset (visitedGroups cs) = mset (visitedGroups es)"
    by (simp only: mset_visitedGroups)
  have "map_of (PrivateAggregate_Dispatch (AggregationNode ref cs)) =
        map_of (PrivateAggregate_Dispatch (AggregationNode ref es))"
    by (simp only: Dispatch_as_fold map_of_fold_foldGroup fold_stepGroup_mset [OF ks])
  moreover have "set (visitedGroups cs) = set (visitedGroups es)"
    using ks by (rule mset_eq_setD)
  then have "mset (map fst (PrivateAggregate_Dispatch (AggregationNode ref cs))) =
        mset (map fst (PrivateAggregate_Dispatch (AggregationNode ref es)))"
    by (simp only: Dispatch_as_fold keys_fold_foldGroup)
  ultimately show ?case by simp
qed

lemma reordered_leaf: "reordered (AggregationNode ref []) (AggregationNode ref [])"
  by (rule reordered.intros [of "[]" "[]"]) simp_all

text \<open>
  C6. The map the root of the Private Aggregation delivers does not depend on the order in
  which the children's messages are folded at any node: two trees that differ only by a
  permutation of the children at every node deliver the same map (the same vector, or
  none, for every group).
\<close>

theorem PrivateAggregate_order_independent:
  "reordered t t' \<Longrightarrow>
     map_of (PrivateAggregate_Dispatch t) = map_of (PrivateAggregate_Dispatch t')"
  by (simp add: reordered_same_map_and_keys)

text \<open>
  A root holding group \<open>1\<close> with two leaves holding groups \<open>2\<close> and \<open>3\<close>, folded in either
  order.
\<close>

theorem PrivateAggregate_order_independent_witness:
  "reordered
     (AggregationNode (Some [(1::nat, [\<lparr>K = 1::int, C = 2\<rparr>])])
        [AggregationNode (Some [(2, [\<lparr>K = 3, C = 4\<rparr>])]) [],
         AggregationNode (Some [(3, [\<lparr>K = 5, C = 6\<rparr>])]) []])
     (AggregationNode (Some [(1::nat, [\<lparr>K = 1::int, C = 2\<rparr>])])
        [AggregationNode (Some [(3, [\<lparr>K = 5, C = 6\<rparr>])]) [],
         AggregationNode (Some [(2, [\<lparr>K = 3, C = 4\<rparr>])]) []])
   \<and> map_of (PrivateAggregate_Dispatch
        (AggregationNode (Some [(1::nat, [\<lparr>K = 1::int, C = 2\<rparr>])])
          [AggregationNode (Some [(2, [\<lparr>K = 3, C = 4\<rparr>])]) [],
           AggregationNode (Some [(3, [\<lparr>K = 5, C = 6\<rparr>])]) []]))
     = map_of (PrivateAggregate_Dispatch
        (AggregationNode (Some [(1::nat, [\<lparr>K = 1::int, C = 2\<rparr>])])
          [AggregationNode (Some [(3, [\<lparr>K = 5, C = 6\<rparr>])]) [],
           AggregationNode (Some [(2, [\<lparr>K = 3, C = 4\<rparr>])]) []]))"
proof -
  let ?a = "AggregationNode (Some [(2::nat, [\<lparr>K = 3::int, C = 4\<rparr>])]) []"
  let ?b = "AggregationNode (Some [(3::nat, [\<lparr>K = 5::int, C = 6\<rparr>])]) []"
  have "list_all2 reordered [?a, ?b] [?a, ?b]"
    by (simp add: reordered_leaf)
  moreover have "mset [?a, ?b] = mset [?b, ?a]" by simp
  ultimately have r: "reordered
      (AggregationNode (Some [(1::nat, [\<lparr>K = 1::int, C = 2\<rparr>])]) [?a, ?b])
      (AggregationNode (Some [(1::nat, [\<lparr>K = 1::int, C = 2\<rparr>])]) [?b, ?a])"
    by (rule reordered.intros)
  show ?thesis using r PrivateAggregate_order_independent [OF r] by simp
qed

section \<open>Key Switching: Start\<close>

lemma copyRow_without_entry:
  "map_of keys k = None \<Longrightarrow> copyRow k i (c # cs) (init, keys) = Inl IndexOutOfRange"
  by (simp add: storeAt_def)

text \<open>
  Whatever the target, no slice is ever stored in \<^verbatim>\<open>originalEphemKeys\<close>: the first row with
  a component stops \<^verbatim>\<open>Start\<close>.
\<close>

lemma copyRows_stops:
  "copyRows target (initialMap, []) =
     (if \<forall>row\<in>set target. snd row = []
      then Inr (fold (\<lambda>row m. AList.update (fst row) [] m) target initialMap, [])
      else Inl IndexOutOfRange)"
proof (induction target arbitrary: initialMap)
  case Nil
  show ?case by simp
next
  case (Cons row target)
  obtain k cv where row: "row = (k, cv)" by (cases row)
  show ?case
  proof (cases cv)
    case Nil
    then show ?thesis by (simp add: row Cons.IH InitCipherVector_def)
  next
    case (Cons c cs)
    then show ?thesis by (simp add: row storeAt_def)
  qed
qed

text \<open>
  C3. The claim: for a target map that is not nil and whose cipher vectors are not empty,
  \<^verbatim>\<open>KeySwitchingProtocol.Start\<close> completes and sends the initial message (K cleared, C kept,
  the original K components alongside). On the target \<open>{1 \<mapsto> [(5, 7)]}\<close> with a public key,
  the code panics instead: \<^verbatim>\<open>p.originalEphemKeys[k][i] = c.K\<close> indexes the nil slice of a map
  entry that was never made. Nothing is sent, so in particular not the prescribed message.
\<close>

theorem KeySwitching_Start_panics:
  "KeySwitching_Start (\<lambda>next. True)
     \<lparr>Private = 1::int, IsRoot = True, nextNodeInCircuit = Some (1::nat),
      TargetOfSwitch = Some [(1::nat, [\<lparr>K = 5, C = 7\<rparr>])], TargetPublicKey = Some 3\<rparr>
   = Inl IndexOutOfRange
   \<and> specifiedInitialMessage [(1::nat, [\<lparr>K = 5::int, C = 7\<rparr>])] 3
   = \<lparr>Data = [(1, [\<lparr>K = 0, C = 7\<rparr>])], NewKey = 3, OriginalEphemeralKeys = [(1, [5])]\<rparr>"
  by (simp add: KeySwitching_Start_def storeAt_def InitCipherVector_def
      specifiedInitialMessage_def)

lemma Start_stops_at_first_component:
  assumes "TargetOfSwitch p = Some target" and "TargetPublicKey p = Some publicKey"
    and "(k, c # cs) \<in> set target"
  shows "KeySwitching_Start SendTo p = Inl IndexOutOfRange"
proof -
  from assms(3) have "\<not> (\<forall>row\<in>set target. snd row = [])" by force
  then show ?thesis
    using assms(1,2) by (simp add: KeySwitching_Start_def copyRows_stops)
qed

section \<open>Key Switching: a run of the ring\<close>

text \<open>Whoever else is on the ring: a target with a component stops the run at \<^verbatim>\<open>Start\<close>.\<close>

lemma KeySwitching_run_stops_at_Start:
  assumes "TargetOfSwitch p = Some target" and "TargetPublicKey p = Some publicKey"
    and "(k, c # cs) \<in> set target"
  shows "KeySwitching_run B SendTo others (p, r) = Crashed IndexOutOfRange"
  using Start_stops_at_first_component [OF assms, of SendTo]
  by (simp add: KeySwitching_run_def)

text \<open>
  A target without any component does go round, and comes back as it left: there is no
  component to switch.
\<close>

lemma KeySwitching_Start_sends_empty_rows:
  assumes "TargetOfSwitch p = Some target" and "TargetPublicKey p = Some publicKey"
    and "KeySwitching_Start SendTo p = Inr (SentTo next msg)"
  shows "\<forall>row\<in>set target. snd row = []" and "OriginalEphemeralKeys msg = []"
  using assms
  by (auto simp: KeySwitching_Start_def copyRows_stops sendToNext_def split: if_splits)

text \<open>
  C2. The claim: for every target map, once the Key Switching message has gone through all
  \<open>N\<close> servers and is back at the initiator, each component is
  \<open>((\<Sum>r\<^sub>i)\<cdot>B, M + (\<Sum>r\<^sub>i)\<cdot>Y\<^sub>t\<^sub>a\<^sub>r\<^sub>g\<^sub>e\<^sub>t)\<close>. Three servers with private scalars \<open>10, 20, 30\<close> and
  randomness \<open>2, 3, 5\<close>, base point \<open>1\<close>, target key \<open>7\<close>, and the target \<open>{1 \<mapsto> [(4, 9)]}\<close>,
  whose plaintext under the collective secret \<open>60\<close> is \<open>9 - 240 = -231\<close>: the claim has the
  initiator deliver \<open>{1 \<mapsto> [(10, -231 + 10 \<cdot> 7)]}\<close>. The run of the code ends in the
  initiator's \<^verbatim>\<open>Start\<close> with the panic of C3; no message goes round and nothing is delivered.
\<close>

theorem KeySwitching_run_never_round:
  "KeySwitching_run (1::int) (\<lambda>next. True)
     [(\<lparr>Private = 10, IsRoot = False, nextNodeInCircuit = Some (2::nat),
         TargetOfSwitch = None, TargetPublicKey = None\<rparr>, 2),
      (\<lparr>Private = 20, IsRoot = False, nextNodeInCircuit = Some 0,
         TargetOfSwitch = None, TargetPublicKey = None\<rparr>, 3)]
     (\<lparr>Private = 30, IsRoot = True, nextNodeInCircuit = Some 1,
        TargetOfSwitch = Some [(1::nat, [\<lparr>K = 4, C = 9\<rparr>])], TargetPublicKey = Some 7\<rparr>, 5)
   = Crashed IndexOutOfRange"
  by (simp add: KeySwitching_run_def KeySwitching_Start_def storeAt_def InitCipherVector_def)

section \<open>Deterministic Switching\<close>

text \<open>
  C4. The claim: at ring closure the initiator's \<^verbatim>\<open>Dispatch\<close> delivers a map assigning to
  each rowID the vector of the C components of the switched ciphertexts. On the received
  map \<open>{1 \<mapsto> [(5, 7)]}\<close> the root panics instead: \<^verbatim>\<open>deterministicSwitchedData[k][i] = ...\<close>
  indexes the nil slice of a map entry that was never made. On \<open>{1 \<mapsto> []}\<close> it delivers
  the empty map, in which row \<open>1\<close> has no entry.
\<close>

theorem DeterministicSwitching_Dispatch_panics:
  "DeterministicSwitching_Dispatch (\<lambda>next. True)
     \<lparr>Private = 1::int, IsRoot = True, nextNodeInCircuit = Some (1::nat),
      TargetOfSwitch = None, SurveyPHKey = 2\<rparr> [(1::nat, [\<lparr>K = 5, C = 7\<rparr>])]
   = Inl IndexOutOfRange
   \<and> DeterministicSwitching_Dispatch (\<lambda>next. True)
     \<lparr>Private = 1::int, IsRoot = True, nextNodeInCircuit = Some (1::nat),
      TargetOfSwitch = None, SurveyPHKey = 2\<rparr> [(1::nat, [])]
   = Inr (Feedback [])"
  by (simp add: DeterministicSwitching_Dispatch_def switchAllToDeterministic_def
      SwitchToDeterministic_def storeAt_def)

lemma extractRows_stops:
  "extractRows rows [] =
     (if \<forall>row\<in>set rows. snd row = [] then Inr [] else Inl IndexOutOfRange)"
proof (induction rows)
  case Nil
  show ?case by simp
next
  case (Cons row rows)
  obtain k cv where row: "row = (k, cv)" by (cases row)
  show ?case
    by (cases cv) (simp_all add: row Cons.IH storeAt_def)
qed

lemma root_stops_at_first_component:
  assumes "IsRoot p" and "(k, c # cs) \<in> set received"
  shows "DeterministicSwitching_Dispatch SendTo p received = Inl IndexOutOfRange"
proof -
  from assms(2) have "(k, SwitchToDeterministic (Private p) (SurveyPHKey p) (c # cs))
      \<in> set (switchAllToDeterministic p received)"
    by (force simp: switchAllToDeterministic_def)
  then have "\<not> (\<forall>row\<in>set (switchAllToDeterministic p received). snd row = [])"
    by (force simp: SwitchToDeterministic_def)
  then show ?thesis
    using assms(1) by (simp add: DeterministicSwitching_Dispatch_def extractRows_stops)
qed

section \<open>Deterministic Switching: a run of the ring\<close>

lemma switchAllToDeterministic_keeps_component:
  assumes "(k, c # cs) \<in> set data"
  shows "\<exists>c' cs'. (k, c' # cs') \<in> set (switchAllToDeterministic p data)"
proof -
  from assms have "(k, SwitchToDeterministic (Private p) (SurveyPHKey p) (c # cs))
      \<in> set (switchAllToDeterministic p data)"
    by (force simp: switchAllToDeterministic_def)
  then show ?thesis by (auto simp: SwitchToDeterministic_def)
qed

lemma DeterministicSwitching_circuit_stops_at_root:
  assumes "\<And>q. q \<in> set others \<Longrightarrow> \<not> IsRoot q \<and> SendTo (nextNodeInCircuit q)"
    and "IsRoot initiator" and "(k, c # cs) \<in> set data"
  shows "DeterministicSwitching_circuit SendTo (others @ [initiator]) data = Crashed IndexOutOfRange"
  using assms(1,3)
proof (induction others arbitrary: data c cs)
  case Nil
  then show ?case
    using assms(2) by (simp add: root_stops_at_first_component)
next
  case (Cons q others)
  have q: "\<not> IsRoot q" "SendTo (nextNodeInCircuit q)"
    using Cons.prems(1) [of q] by simp_all
  obtain c' cs' where "(k, c' # cs') \<in> set (switchAllToDeterministic q data)"
    using switchAllToDeterministic_keeps_component [OF Cons.prems(2)] by blast
  then have "DeterministicSwitching_circuit SendTo (others @ [initiator])
      (switchAllToDeterministic q data) = Crashed IndexOutOfRange"
    using Cons.prems(1) by (intro Cons.IH) simp_all
  then show ?case
    using q by (simp add: DeterministicSwitching_Dispatch_def sendToNext_def)
qed

text \<open>
  On a ring whose sends succeed, whatever the private scalars and the survey scalars are: a
  target with a component ends the run with the root's panic, and no label is delivered.
\<close>

lemma DeterministicSwitching_run_stops_at_root:
  assumes "\<And>q. q \<in> set others \<Longrightarrow> \<not> IsRoot q \<and> SendTo (nextNodeInCircuit q)"
    and "IsRoot initiator" and "SendTo (nextNodeInCircuit initiator)"
    and "TargetOfSwitch initiator = Some target" and "(k, c # cs) \<in> set target"
  shows "DeterministicSwitching_run SendTo others initiator = Crashed IndexOutOfRange"
  using assms(3,4) DeterministicSwitching_circuit_stops_at_root [OF assms(1,2,5)]
  by (simp add: DeterministicSwitching_run_def DeterministicSwitching_Start_def sendToNext_def)

text \<open>
  C5. The claim: within one survey the full Deterministic Switching ring yields equal
  DeterministicCipherTexts for two encryptions of the same plaintext, and in two surveys
  with independent survey scalars the labels of the same plaintext differ. Two servers with
  private scalars \<open>1, 3\<close> and base point \<open>1\<close>, so the collective key is \<open>4\<close>; the ciphertexts
  \<open>(2, 13)\<close> and \<open>(3, 17)\<close> both encrypt the plaintext \<open>5\<close>. In the survey with scalars
  \<open>2, 4\<close> the run on either ciphertext ends with the root's panic of C4, and so does the run
  on \<open>(2, 13)\<close> in the survey with scalars \<open>5, 6\<close>: the ring yields no
  DeterministicCipherText at all, and what it does is the same in both surveys.
\<close>

theorem DeterministicSwitching_run_yields_no_label:
  "DeterministicSwitching_run (\<lambda>next. True)
     [\<lparr>Private = 1::int, IsRoot = False, nextNodeInCircuit = Some (0::nat),
       TargetOfSwitch = None, SurveyPHKey = 2\<rparr>]
     \<lparr>Private = 3, IsRoot = True, nextNodeInCircuit = Some 1,
      TargetOfSwitch = Some [(1::nat, [\<lparr>K = 2, C = 13\<rparr>])], SurveyPHKey = 4\<rparr>
   = Crashed IndexOutOfRange
   \<and> DeterministicSwitching_run (\<lambda>next. True)
     [\<lparr>Private = 1::int, IsRoot = False, nextNodeInCircuit = Some (0::nat),
       TargetOfSwitch = None, SurveyPHKey = 2\<rparr>]
     \<lparr>Private = 3, IsRoot = True, nextNodeInCircuit = Some 1,
      TargetOfSwitch = Some [(1::nat, [\<lparr>K = 3, C = 17\<rparr>])], SurveyPHKey = 4\<rparr>
   = Crashed IndexOutOfRange
   \<and> DeterministicSwitching_run (\<lambda>next. True)
     [\<lparr>Private = 1::int, IsRoot = False, nextNodeInCircuit = Some (0::nat),
       TargetOfSwitch = None, SurveyPHKey = 5\<rparr>]
     \<lparr>Private = 3, IsRoot = True, nextNodeInCircuit = Some 1,
      TargetOfSwitch = Some [(1::nat, [\<lparr>K = 2, C = 13\<rparr>])], SurveyPHKey = 6\<rparr>
   = Crashed IndexOutOfRange"
  by (simp add: DeterministicSwitching_run_def DeterministicSwitching_Start_def
      DeterministicSwitching_Dispatch_def sendToNext_def switchAllToDeterministic_def
      SwitchToDeterministic_def storeAt_def)

section \<open>Start and its configuration\<close>

lemma copyRow_failure: "copyRow k i cv st = Inl e \<Longrightarrow> e = IndexOutOfRange"
proof (induction cv arbitrary: i st)
  case Nil
  then show ?case by simp
next
  case (Cons c cv)
  obtain init keys where st: "st = (init, keys)" by (cases st)
  from Cons.prems Cons.IH show ?case
    by (auto simp: st storeAt_def split: sum.splits option.splits if_splits)
qed

lemma copyRows_failure: "copyRows target st = Inl e \<Longrightarrow> e = IndexOutOfRange"
proof (induction target arbitrary: st)
  case Nil
  then show ?case by simp
next
  case (Cons row target)
  obtain k cv where row: "row = (k, cv)" by (cases row)
  obtain initialMap keys where st: "st = (initialMap, keys)" by (cases st)
  from Cons.prems Cons.IH show ?case
    by (auto simp: row st split: sum.splits prod.splits dest: copyRow_failure)
qed

text \<open>
  C8, as amended. \<^verbatim>\<open>DeterministicSwitchingProtocol.Start\<close> fails exactly when the target map
  is nil, and \<^verbatim>\<open>PrivateAggregateProtocol.Start\<close> exactly when the data reference is nil.
  \<^verbatim>\<open>KeySwitchingProtocol.Start\<close> returns the missing-target error exactly when the target
  map is nil, and the missing-key error exactly when the target map is there and the new
  public key is nil. No \<^verbatim>\<open>Start\<close> looks at the roster or at the next node: the statements
  hold whatever \<open>nextNodeInCircuit\<close> is and whatever the overlay answers.
\<close>

theorem Start_configuration_errors:
  "((\<exists>e. DeterministicSwitching_Start SendTo p = Inl e) \<longleftrightarrow> TargetOfSwitch p = None)
   \<and> ((\<exists>e. PrivateAggregate_Start DataReference = Inl e) \<longleftrightarrow> DataReference = None)
   \<and> (KeySwitching_Start SendTo q = Inl NoTarget \<longleftrightarrow> TargetOfSwitch q = None)
   \<and> (KeySwitching_Start SendTo q = Inl NoPublicKey \<longleftrightarrow>
        TargetOfSwitch q \<noteq> None \<and> TargetPublicKey q = None)"
proof -
  have ds: "(\<exists>e. DeterministicSwitching_Start SendTo p = Inl e) \<longleftrightarrow> TargetOfSwitch p = None"
    by (simp add: DeterministicSwitching_Start_def split: option.splits)
  have pa: "(\<exists>e. PrivateAggregate_Start DataReference = Inl e) \<longleftrightarrow> DataReference = None"
    by (simp add: PrivateAggregate_Start_def split: option.splits)
  have ks1: "KeySwitching_Start SendTo q = Inl NoTarget \<longleftrightarrow> TargetOfSwitch q = None"
    by (auto simp: KeySwitching_Start_def split: option.splits sum.splits dest: copyRows_failure)
  have ks2: "KeySwitching_Start SendTo q = Inl NoPublicKey \<longleftrightarrow>
        TargetOfSwitch q \<noteq> None \<and> TargetPublicKey q = None"
    by (auto simp: KeySwitching_Start_def split: option.splits sum.splits dest: copyRows_failure)
  from ds pa ks1 ks2 show ?thesis by blast
qed

text \<open>
  A Deterministic Switching instance and a data reference without their maps, a Key
  Switching instance with a target but no public key.
\<close>

theorem Start_configuration_errors_witness:
  "(\<exists>e. DeterministicSwitching_Start (\<lambda>next. True)
       \<lparr>Private = 1::int, IsRoot = True, nextNodeInCircuit = Some (1::nat),
        TargetOfSwitch = None :: (nat \<times> int CipherVector) list option, SurveyPHKey = 2\<rparr> = Inl e)
   \<and> (\<exists>e. PrivateAggregate_Start (None :: (nat \<times> int CipherVector) list option) = Inl e)
   \<and> KeySwitching_Start (\<lambda>next. True)
       \<lparr>Private = 1::int, IsRoot = True, nextNodeInCircuit = Some (1::nat),
        TargetOfSwitch = Some [(1::nat, [\<lparr>K = 5, C = 7\<rparr>])], TargetPublicKey = None\<rparr>
     = Inl NoPublicKey"
  using Start_configuration_errors [where SendTo = "\<lambda>next. True"
      and p = "\<lparr>Private = 1::int, IsRoot = True, nextNodeInCircuit = Some (1::nat),
        TargetOfSwitch = None :: (nat \<times> int CipherVector) list option, SurveyPHKey = 2\<rparr>"
      and DataReference = "None :: (nat \<times> int CipherVector) list option"
      and q = "\<lparr>Private = 1::int, IsRoot = True, nextNodeInCircuit = Some (1::nat),
        TargetOfSwitch = Some [(1::nat, [\<lparr>K = 5, C = 7\<rparr>])], TargetPublicKey = None\<rparr>"]
  by simp

text \<open>
  The claim as stated fails: with an empty node list the constructor finds no next node,
  and \<^verbatim>\<open>Start\<close>, given a target map, still returns \<^verbatim>\<open>nil\<close>; the send to the nil node fails
  and is only logged.
\<close>

theorem Start_empty_roster_counterexample:
  "circuitSuccessor ([]::nat list) 0 = None
   \<and> DeterministicSwitching_Start (\<lambda>next. next \<noteq> None)
       \<lparr>Private = 1::int, IsRoot = True, nextNodeInCircuit = circuitSuccessor ([]::nat list) 0,
        TargetOfSwitch = Some [(1::nat, [\<lparr>K = 5, C = 7\<rparr>])], SurveyPHKey = 2\<rparr>
     = Inr SendErrorLogged"
  by (simp add: circuitSuccessor_def DeterministicSwitching_Start_def sendToNext_def)

section \<open>A send that fails\<close>

text \<open>
  C9, as amended. When the send of a ring protocol instance to its next node fails, the
  error is logged and nothing else happens: \<^verbatim>\<open>Start\<close> and \<^verbatim>\<open>Dispatch\<close> return \<^verbatim>\<open>nil\<close> as
  they do after a send that succeeded, and nothing is forwarded. This holds for
  \<^verbatim>\<open>Start\<close> of Deterministic Switching with a target, for \<^verbatim>\<open>Dispatch\<close> of both protocols at
  a node that is not the root, and for \<^verbatim>\<open>Start\<close> of Key Switching when it gets as far as
  sending.
\<close>

theorem send_failure_is_swallowed:
  assumes "\<not> SendTo (nextNodeInCircuit p)" and "\<not> SendTo (nextNodeInCircuit q)"
  shows "(TargetOfSwitch p \<noteq> None \<longrightarrow> DeterministicSwitching_Start SendTo p = Inr SendErrorLogged)
     \<and> (\<not> IsRoot p \<longrightarrow> DeterministicSwitching_Dispatch SendTo p msg = Inr SendErrorLogged)
     \<and> (\<not> IsRoot q \<and> switchAllForKey B (Private q) r ksmsg (Data ksmsg) = Inr switched \<longrightarrow>
          KeySwitching_Dispatch B SendTo q r ksmsg = Inr SendErrorLogged)
     \<and> (TargetOfSwitch q = Some target \<and> TargetPublicKey q = Some publicKey
          \<and> copyRows target ([], []) = Inr st \<longrightarrow>
          KeySwitching_Start SendTo q = Inr SendErrorLogged)"
  using assms
  by (auto simp: DeterministicSwitching_Start_def DeterministicSwitching_Dispatch_def
      KeySwitching_Dispatch_def KeySwitching_Start_def sendToNext_def)

text \<open>
  An overlay on which every send fails: a Deterministic Switching node that is not the
  root, started and dispatching; a Key Switching node that is not the root, dispatching a
  message with one row, and started on a target whose only row is empty.
\<close>

theorem send_failure_is_swallowed_witness:
  "DeterministicSwitching_Start (\<lambda>next. False)
       \<lparr>Private = 1::int, IsRoot = False, nextNodeInCircuit = Some (1::nat),
        TargetOfSwitch = Some [(1::nat, [\<lparr>K = 5, C = 7\<rparr>])], SurveyPHKey = 2\<rparr>
     = Inr SendErrorLogged
   \<and> DeterministicSwitching_Dispatch (\<lambda>next. False)
       \<lparr>Private = 1::int, IsRoot = False, nextNodeInCircuit = Some (1::nat),
        TargetOfSwitch = Some [(1::nat, [\<lparr>K = 5, C = 7\<rparr>])], SurveyPHKey = 2\<rparr>
       [(1::nat, [\<lparr>K = 5, C = 7\<rparr>])]
     = Inr SendErrorLogged
   \<and> KeySwitching_Dispatch 1 (\<lambda>next. False)
       \<lparr>Private = 1::int, IsRoot = False, nextNodeInCircuit = Some (1::nat),
        TargetOfSwitch = Some [(1::nat, [])], TargetPublicKey = Some 3\<rparr> 4
       \<lparr>Data = [(1, [\<lparr>K = 0, C = 7\<rparr>])], NewKey = 3, OriginalEphemeralKeys = [(1, [5])]\<rparr>
     = Inr SendErrorLogged
   \<and> KeySwitching_Start (\<lambda>next. False)
       \<lparr>Private = 1::int, IsRoot = False, nextNodeInCircuit = Some (1::nat),
        TargetOfSwitch = Some [(1::nat, [])], TargetPublicKey = Some 3\<rparr>
     = Inr SendErrorLogged"
proof -
  let ?p = "\<lparr>Private = 1::int, IsRoot = False, nextNodeInCircuit = Some (1::nat),
        TargetOfSwitch = Some [(1::nat, [\<lparr>K = 5, C = 7\<rparr>])], SurveyPHKey = 2\<rparr>"
  let ?q = "\<lparr>Private = 1::int, IsRoot = False, nextNodeInCircuit = Some (1::nat),
        TargetOfSwitch = Some [(1::nat, [])], TargetPublicKey = Some 3\<rparr>"
  let ?m = "\<lparr>Data = [(1::nat, [\<lparr>K = 0::int, C = 7\<rparr>])], NewKey = 3,
        OriginalEphemeralKeys = [(1, [5])]\<rparr>"
  have fp: "\<not> (\<lambda>next. False) (nextNodeInCircuit ?p)" by simp
  have fq: "\<not> (\<lambda>next. False) (nextNodeInCircuit ?q)" by simp
  have sw: "switchAllForKey 1 (Private ?q) 4 ?m (Data ?m) = Inr [(1, [\<lparr>K = 4, C = 14\<rparr>])]"
    by simp
  have cp: "copyRows [(1::nat, [] :: int CipherVector)] ([], []) = Inr ([(1, [])], [])"
    by (simp add: InitCipherVector_def)
  show ?thesis
    using send_failure_is_swallowed [where SendTo = "\<lambda>next. False" and p = ?p and q = ?q
        and msg = "[(1::nat, [\<lparr>K = 5, C = 7\<rparr>])]" and B = 1 and r = 4 and ksmsg = ?m
        and switched = "[(1, [\<lparr>K = 4, C = 14\<rparr>])]" and target = "[(1::nat, [])]"
        and publicKey = 3 and st = "([(1, [])], [])"] fp fq sw cp
    by simp
qed

text \<open>
  The claim as stated fails: on an overlay whose send fails, \<^verbatim>\<open>Start\<close> with a target map
  returns \<^verbatim>\<open>nil\<close>, not an error, having logged the failure.
\<close>

theorem send_failure_counterexample:
  "DeterministicSwitching_Start (\<lambda>next. False)
       \<lparr>Private = 1::int, IsRoot = True, nextNodeInCircuit = Some (1::nat),
        TargetOfSwitch = Some [(1::nat, [\<lparr>K = 5, C = 7\<rparr>])], SurveyPHKey = 2\<rparr>
     = Inr SendErrorLogged"
  by (simp add: DeterministicSwitching_Start_def sendToNext_def)

section \<open>The service handlers\<close>

text \<open>
  C10. Every survey-creation request replaces the survey state of the server, whatever it
  was: afterwards the roster is the request's, the tree the one generated from it, the
  store a new one, the survey scalar the one just picked; only the server's own identity
  stays. Nothing of the earlier survey is kept, so a server holds one survey at most. A
  request with a roster that is not empty is answered with \<^verbatim>\<open>ServiceResponse{1}\<close> and no
  error.
\<close>

theorem HandleSurveyCreationQuery_replaces_state:
  "fst (snd (HandleSurveyCreationQuery GenerateBinaryTree NewSurvey picked mcs recq)) =
     \<lparr>entity = entity mcs, entityList = recq, tree = GenerateBinaryTree recq,
      store = NewSurvey, surveyPHKey = picked\<rparr>
   \<and> (recq \<noteq> [] \<longrightarrow>
        fst (HandleSurveyCreationQuery GenerateBinaryTree NewSurvey picked mcs recq) =
          Inr (ServiceResponse 1, None))"
  by (cases recq) (simp_all add: HandleSurveyCreationQuery_def Let_def)

text \<open>
  A server whose store holds three rows of a first survey receives the creation of a
  second one: the store is the new, empty one, and the answer is \<^verbatim>\<open>ServiceResponse{1}\<close>.
\<close>

theorem HandleSurveyCreationQuery_replaces_state_witness:
  "fst (snd (HandleSurveyCreationQuery (\<lambda>es. length es) ([]::nat list) (9::int)
       \<lparr>entity = 1::nat, entityList = [1, 2], tree = 2, store = [10, 20, 30], surveyPHKey = 4\<rparr>
       [1, 2, 3])) =
     \<lparr>entity = 1, entityList = [1, 2, 3], tree = 3, store = [], surveyPHKey = 9\<rparr>
   \<and> [1::nat, 2, 3] \<noteq> []
   \<and> fst (HandleSurveyCreationQuery (\<lambda>es. length es) ([]::nat list) (9::int)
       \<lparr>entity = 1::nat, entityList = [1, 2], tree = 2, store = [10, 20, 30], surveyPHKey = 4\<rparr>
       [1, 2, 3]) = Inr (ServiceResponse 1, None)"
  using HandleSurveyCreationQuery_replaces_state [of "\<lambda>es. length es" "[]::nat list" "9::int"
      "\<lparr>entity = 1::nat, entityList = [1, 2], tree = 2, store = [10, 20, 30], surveyPHKey = 4\<rparr>"
      "[1, 2, 3]"]
  by simp

text \<open>
  C7, as amended. Whenever \<^verbatim>\<open>HandleSurveyResultsQuery\<close> returns, it returns a
  \<^verbatim>\<open>SurveyResultResponse\<close> holding what \<^verbatim>\<open>PollDeliverableResults\<close> yields on the store the
  three steps left, together with the \<^verbatim>\<open>nil\<close> error: the errors \<open>e1\<close>, \<open>e2\<close>, \<open>e3\<close> the steps
  return, whatever they are, are dropped.
\<close>

theorem HandleSurveyResultsQuery_never_reports:
  assumes "HandleSurveyResultsQuery env mcs clientPublic = Some (reply, mcs')"
  shows "snd reply = None
     \<and> (\<exists>e1 m1 e2 m2 e3 m3.
          flushCollectedData env mcs = Some (e1, m1)
        \<and> flushGroupedData env m1 = Some (e2, m2)
        \<and> flushAggregatedData env m2 clientPublic = Some (e3, m3)
        \<and> fst reply = SurveyResultResponse (fst (PollDeliverableResults env (store m3))))"
  using assms
  by (auto simp: HandleSurveyResultsQuery_def split: option.splits prod.splits)

text \<open>
  With the example collaborators the first step fails, and the handler answers with the
  results in the store and no error.
\<close>

theorem HandleSurveyResultsQuery_never_reports_witness:
  "HandleSurveyResultsQuery exampleCollaborators
       \<lparr>entity = 1::nat, entityList = [1], tree = (), store = [7], surveyPHKey = 4\<rparr> 3
     = Some ((SurveyResultResponse [7], None),
         \<lparr>entity = 1::nat, entityList = [1], tree = (), store = [], surveyPHKey = 4\<rparr>)
   \<and> snd (SurveyResultResponse [7::nat], None :: failure option) = None
   \<and> (\<exists>e1 m1 e2 m2 e3 m3.
          flushCollectedData exampleCollaborators
            \<lparr>entity = 1::nat, entityList = [1], tree = (), store = [7], surveyPHKey = 4\<rparr>
            = Some (e1, m1)
        \<and> flushGroupedData exampleCollaborators m1 = Some (e2, m2)
        \<and> flushAggregatedData exampleCollaborators m2 3 = Some (e3, m3)
        \<and> fst (SurveyResultResponse [7::nat], None :: failure option) =
            SurveyResultResponse (fst (PollDeliverableResults exampleCollaborators (store m3))))"
proof -
  have h: "HandleSurveyResultsQuery exampleCollaborators
       \<lparr>entity = 1::nat, entityList = [1], tree = (), store = [7], surveyPHKey = 4\<rparr> 3
     = Some ((SurveyResultResponse [7], None),
         \<lparr>entity = 1::nat, entityList = [1], tree = (), store = [], surveyPHKey = 4\<rparr>)"
    by (simp add: exampleCollaborators_def HandleSurveyResultsQuery_def flushCollectedData_def
        flushGroupedData_def flushAggregatedData_def)
  from h HandleSurveyResultsQuery_never_reports [OF h] show ?thesis
    by (intro conjI) simp_all
qed

text \<open>
  The claim as stated fails: the first step of the pipeline returns an error (the
  Deterministic Switching instance could not be created), and the handler still returns a
  result set with the \<^verbatim>\<open>nil\<close> error.
\<close>

theorem HandleSurveyResultsQuery_counterexample:
  "flushCollectedData exampleCollaborators
       \<lparr>entity = 1::nat, entityList = [1], tree = (), store = [7], surveyPHKey = 4\<rparr>
     = Some (Some CouldNotInstanciate,
         \<lparr>entity = 1::nat, entityList = [1], tree = (), store = [7], surveyPHKey = 4\<rparr>)
   \<and> HandleSurveyResultsQuery exampleCollaborators
       \<lparr>entity = 1::nat, entityList = [1], tree = (), store = [7], surveyPHKey = 4\<rparr> 3
     = Some ((SurveyResultResponse [7], None),
         \<lparr>entity = 1::nat, entityList = [1], tree = (), store = [], surveyPHKey = 4\<rparr>)"
  by (simp add: exampleCollaborators_def HandleSurveyResultsQuery_def flushCollectedData_def
      flushGroupedData_def flushAggregatedData_def)

end
